theory Spec2Isabelle
  imports Main "HOL-Library.AList"
begin

section \<open>The workload replay driver (workload\_parser.py)\<close>

text \<open>
  The program reads a workload file, decides once whether the three database files are
  wiped, maintains a flag file, and replays every other line as one HTTP request.
  The model below follows \<^verbatim>\<open>WorkloadParser\<close> method by method.

  Modelling decisions:
  \<^item> A Python \<^verbatim>\<open>str\<close> is a list of Unicode code points (\<open>nat\<close>); \<open>lit\<close> embeds an
    ASCII literal of the source.
  \<^item> \<^verbatim>\<open>str.isspace\<close> (which \<^verbatim>\<open>strip()\<close> and \<^verbatim>\<open>split()\<close> use) is written out in full.
  \<^item> \<^verbatim>\<open>str.upper\<close>, \<^verbatim>\<open>str.lower\<close> and \<^verbatim>\<open>int\<close> are written out where their result is
    the same for every version of the Unicode tables and every setting of the
    interpreter: on ASCII (and two further letters), and on signed runs of at most 640
    ASCII digits. Everywhere else their result is a parameter (\<open>upper_rest\<close>,
    \<open>lower_rest\<close>, \<open>int_rest\<close>), so every property holds whatever the tables say there.
    \<^verbatim>\<open>float\<close> is a parameter throughout (\<open>float_of\<close>).
  \<^item> The file system is a map from a path to the content of the regular file there.
    The paths the program tests are assumed not to be directories, and file operations
    are assumed to succeed (the program does not handle their failure: it aborts).
  \<^item> The downstream service is a parameter: a function from the requests issued so far
    and the current request to either a response or a failure of the call.
  \<^item> Printing appends a line to \<open>out\<close>; every attempted HTTP call is appended to
    \<open>reqs\<close>; \<open>resets\<close> counts the calls of \<^verbatim>\<open>reset_databases\<close>.
\<close>

subsection \<open>Strings\<close>

type_synonym str = "nat list"

definition lit :: "string \<Rightarrow> str" where
  \<comment> \<open>an ASCII string literal of the source, as code points\<close>
  "lit s = map of_char s"

definition isspace :: "nat \<Rightarrow> bool" where
  \<comment> \<open>\<^verbatim>\<open>str.isspace\<close> on one character: TAB to CR, FS to US, SPACE, NEL, NBSP, OGHAM SPACE,
      EN QUAD to HAIR SPACE, LINE and PARAGRAPH SEPARATOR, NARROW NBSP, MEDIUM MATHEMATICAL
      SPACE, IDEOGRAPHIC SPACE\<close>
  "isspace c =
     ((9 \<le> c \<and> c \<le> 13) \<or> (28 \<le> c \<and> c \<le> 32) \<or> c = 0x85 \<or> c = 0xA0 \<or> c = 0x1680 \<or>
      (0x2000 \<le> c \<and> c \<le> 0x200A) \<or> c = 0x2028 \<or> c = 0x2029 \<or> c = 0x202F \<or>
      c = 0x205F \<or> c = 0x3000)"

definition strip :: "str \<Rightarrow> str" where
  \<comment> \<open>\<^verbatim>\<open>str.strip()\<close>\<close>
  "strip s = rev (dropWhile isspace (rev (dropWhile isspace s)))"

fun split_from :: "str \<Rightarrow> str \<Rightarrow> str list" where
  \<comment> \<open>\<^verbatim>\<open>str.split()\<close> with the token read so far as first argument\<close>
  "split_from cur [] = (if cur = [] then [] else [cur])"
| "split_from cur (c # cs) =
     (if isspace c then (if cur = [] then split_from [] cs else cur # split_from [] cs)
      else split_from (cur @ [c]) cs)"

definition split :: "str \<Rightarrow> str list" where
  \<comment> \<open>\<^verbatim>\<open>str.split()\<close>: the maximal runs of non-whitespace characters\<close>
  "split s = split_from [] s"

definition startswith :: "str \<Rightarrow> str \<Rightarrow> bool" where
  \<comment> \<open>\<^verbatim>\<open>str.startswith(prefix)\<close>\<close>
  "startswith s p = (take (length p) s = p)"

subsection \<open>The parameters\<close>

datatype 'f jvalue = JStr str | JInt int | JFloat 'f

type_synonym 'f payload = "(str \<times> 'f jvalue) list"

datatype 'f request =
    Post str "'f payload" "(str \<times> str) list"
  | Get str

datatype http_outcome = Response int str | Transport_Failure

record 'f env =
  order_service_url :: str
  net :: "'f request list \<Rightarrow> 'f request \<Rightarrow> http_outcome"
  float_of :: "str \<Rightarrow> 'f option"
  int_rest :: "str \<Rightarrow> int option"
  upper_rest :: "str \<Rightarrow> str"
  lower_rest :: "str \<Rightarrow> str"

subsection \<open>Letter case\<close>

definition plain :: "nat \<Rightarrow> bool" where
  \<comment> \<open>the characters whose case mappings are written out: ASCII, DOTLESS I, LONG S\<close>
  "plain c = (c < 128 \<or> c = 0x131 \<or> c = 0x17F)"

definition char_upper :: "nat \<Rightarrow> str" where
  \<comment> \<open>upper case of a plain character: a to z, DOTLESS I to I, LONG S to S\<close>
  "char_upper c =
     (if 97 \<le> c \<and> c \<le> 122 then [c - 32]
      else if c = 0x131 then [73]
      else if c = 0x17F then [83]
      else [c])"

definition char_lower :: "nat \<Rightarrow> str" where
  \<comment> \<open>lower case of a plain character: A to Z\<close>
  "char_lower c = (if 65 \<le> c \<and> c \<le> 90 then [c + 32] else [c])"

definition upper :: "'f env \<Rightarrow> str \<Rightarrow> str" where
  \<comment> \<open>\<^verbatim>\<open>str.upper()\<close>\<close>
  "upper E s = (if list_all plain s then concat (map char_upper s) else upper_rest E s)"

definition lower :: "'f env \<Rightarrow> str \<Rightarrow> str" where
  \<comment> \<open>\<^verbatim>\<open>str.lower()\<close>\<close>
  "lower E s = (if list_all plain s then concat (map char_lower s) else lower_rest E s)"

subsection \<open>Exceptions and argument coercion\<close>

datatype exn = IndexError | ValueError | RequestException

definition then_do :: "exn + 'a \<Rightarrow> ('a \<Rightarrow> exn + 'b) \<Rightarrow> exn + 'b" where
  \<comment> \<open>sequencing: the first exception raised wins\<close>
  "then_do m f = (case m of Inl e \<Rightarrow> Inl e | Inr x \<Rightarrow> f x)"

definition subscript :: "'a list \<Rightarrow> nat \<Rightarrow> exn + 'a" where
  \<comment> \<open>\<^verbatim>\<open>args[i]\<close> for a literal index \<open>i \<ge> 0\<close>\<close>
  "subscript xs i = (if i < length xs then Inr (xs ! i) else Inl IndexError)"

definition isdigit :: "nat \<Rightarrow> bool" where
  \<comment> \<open>an ASCII digit\<close>
  "isdigit c = (48 \<le> c \<and> c \<le> 57)"

definition digits_value :: "str \<Rightarrow> int" where
  "digits_value s = foldl (\<lambda>a c. 10 * a + (int c - 48)) 0 s"

definition ascii_int :: "str \<Rightarrow> int option" where
  \<comment> \<open>an optional sign and 1 to 640 ASCII digits: \<^verbatim>\<open>int\<close> accepts these whatever the
      limit on the number of digits is set to (it cannot be set below 640)\<close>
  "ascii_int s =
     (let neg = (s \<noteq> [] \<and> hd s = 45);
          body = (if s \<noteq> [] \<and> (hd s = 45 \<or> hd s = 43) then tl s else s)
      in if body \<noteq> [] \<and> length body \<le> 640 \<and> list_all isdigit body
         then Some (if neg then - digits_value body else digits_value body)
         else None)"

definition py_int :: "'f env \<Rightarrow> str \<Rightarrow> exn + int" where
  \<comment> \<open>\<^verbatim>\<open>int(s)\<close> on a string: a value or ValueError\<close>
  "py_int E s =
     (case ascii_int s of
        Some n \<Rightarrow> Inr n
      | None \<Rightarrow> (case int_rest E s of Some n \<Rightarrow> Inr n | None \<Rightarrow> Inl ValueError))"

definition py_float :: "'f env \<Rightarrow> str \<Rightarrow> exn + 'f" where
  \<comment> \<open>\<^verbatim>\<open>float(s)\<close> on a string: a value or ValueError\<close>
  "py_float E s = (case float_of E s of Some x \<Rightarrow> Inr x | None \<Rightarrow> Inl ValueError)"

definition colon_key :: "str \<Rightarrow> str" where
  \<comment> \<open>the text before the first colon\<close>
  "colon_key a = takeWhile (\<lambda>c. c \<noteq> 58) a"

definition colon_value :: "str \<Rightarrow> str" where
  \<comment> \<open>the text after the first colon\<close>
  "colon_value a = tl (dropWhile (\<lambda>c. c \<noteq> 58) a)"

definition split_colon :: "str \<Rightarrow> exn + (str \<times> str)" where
  \<comment> \<open>\<^verbatim>\<open>key, value = arg.split(':', 1)\<close>: without a colon the unpacking raises ValueError\<close>
  "split_colon a = (if 58 \<in> set a then Inr (colon_key a, colon_value a) else Inl ValueError)"

subsection \<open>The world: files, printed lines, requests\<close>

record 'f world =
  fs :: "str \<rightharpoonup> str"
  out :: "str list"
  reqs :: "'f request list"
  resets :: nat

definition restart_flag_file :: str where
  "restart_flag_file = lit ''restart_flag.txt''"

definition print :: "str \<Rightarrow> 'f world \<Rightarrow> 'f world" where
  "print l w = w\<lparr>out := out w @ [l]\<rparr>"

definition exists :: "str \<Rightarrow> 'f world \<Rightarrow> bool" where
  \<comment> \<open>\<^verbatim>\<open>os.path.exists\<close>\<close>
  "exists p w = (fs w p \<noteq> None)"

definition remove :: "str \<Rightarrow> 'f world \<Rightarrow> 'f world" where
  \<comment> \<open>\<^verbatim>\<open>os.remove\<close>, called on existing files only\<close>
  "remove p w = w\<lparr>fs := (fs w)(p := None)\<rparr>"

definition write_file :: "str \<Rightarrow> str \<Rightarrow> 'f world \<Rightarrow> 'f world" where
  \<comment> \<open>\<^verbatim>\<open>open(p, 'w')\<close>, write, close: the file holds exactly the text written\<close>
  "write_file p txt w = w\<lparr>fs := (fs w)(p \<mapsto> txt)\<rparr>"

subsection \<open>reset\_databases\<close>

definition db_files :: "str list" where
  "db_files = [lit ''compiled/UserService/users.txt'',
               lit ''compiled/ProductService/products.txt'',
               lit ''compiled/OrderService/orders.txt'']"

definition delete_db_file :: "str \<Rightarrow> 'f world \<Rightarrow> 'f world" where
  \<comment> \<open>body of the first loop\<close>
  "delete_db_file db_file w =
     (if exists db_file w then print (lit ''Deleted '' @ db_file) (remove db_file w)
      else print (db_file @ lit '' not found, skipping.'') w)"

definition recreate_db_file :: "str \<Rightarrow> 'f world \<Rightarrow> 'f world" where
  \<comment> \<open>body of the second loop; \<^verbatim>\<open>os.makedirs\<close> changes directories only, which the
      file map does not hold\<close>
  "recreate_db_file db_file w =
     print (lit ''Recreated fresh database file: '' @ db_file) (write_file db_file [] w)"

definition reset_databases :: "'f world \<Rightarrow> 'f world" where
  "reset_databases w =
     (let w1 = fold delete_db_file db_files w;
          w2 = fold recreate_db_file db_files w1
      in w2\<lparr>resets := Suc (resets w2)\<rparr>)"

subsection \<open>One HTTP call and its report\<close>

datatype 'f outcome = Done "'f world" | Raised exn "'f world"

definition http :: "'f env \<Rightarrow> 'f request \<Rightarrow> 'f world \<Rightarrow> (exn + int \<times> str) \<times> 'f world" where
  \<comment> \<open>\<^verbatim>\<open>requests.post\<close> / \<^verbatim>\<open>requests.get\<close>: the call is attempted (and logged) once; it
      returns a status code and a body, or raises\<close>
  "http E r w =
     (case net E (reqs w) r of
        Response sc txt \<Rightarrow> Inr (sc, txt)
      | Transport_Failure \<Rightarrow> Inl RequestException,
      w\<lparr>reqs := reqs w @ [r]\<rparr>)"

definition report :: "int \<times> str \<Rightarrow> 'f world \<Rightarrow> 'f world" where
  \<comment> \<open>\<^verbatim>\<open>print("Successful: ", response.text)\<close> joins its two arguments with a space\<close>
  "report resp w =
     (if fst resp = 200 then print (lit ''Successful:  '' @ snd resp) w
      else print (lit ''Failed:  '' @ snd resp) w)"

definition send :: "'f env \<Rightarrow> exn + 'f request \<Rightarrow> 'f world \<Rightarrow> 'f outcome" where
  \<comment> \<open>the shape shared by every \<^verbatim>\<open>try\<close> block: build the request, call, report\<close>
  "send E rq w =
     (case rq of
        Inl e \<Rightarrow> Raised e w
      | Inr r \<Rightarrow>
          (case http E r w of
             (Inl e, w') \<Rightarrow> Raised e w'
           | (Inr resp, w') \<Rightarrow> Done (report resp w')))"

definition try_except :: "'f outcome \<Rightarrow> str \<Rightarrow> 'f world" where
  \<comment> \<open>\<^verbatim>\<open>try: ... except Exception as e: print(msg)\<close>\<close>
  "try_except body msg = (case body of Done w' \<Rightarrow> w' | Raised e w' \<Rightarrow> print msg w')"

definition json_headers :: "(str \<times> str) list" where
  "json_headers = [(lit ''Content-Type'', lit ''application/json'')]"

definition failed_placeholder :: str where
  \<comment> \<open>\<^verbatim>\<open>print("Failed:  {}")\<close>\<close>
  "failed_placeholder = lit ''Failed:  {}''"

definition invalid_request :: str where
  \<comment> \<open>\<^verbatim>\<open>print("Failed: {\"status\":\"Invalid Request\"}")\<close>; 34 is the double quote\<close>
  "invalid_request =
     lit ''Failed: {'' @ [34] @ lit ''status'' @ [34] @ lit '':'' @ [34]
       @ lit ''Invalid Request'' @ [34] @ lit ''}''"

subsection \<open>Payloads\<close>

fun update_fields :: "str list \<Rightarrow> 'f payload \<Rightarrow> exn + 'f payload" where
  \<comment> \<open>\<^verbatim>\<open>for arg in args[1:]: key, value = arg.split(':', 1); payload[key] = value\<close>\<close>
  "update_fields [] p = Inr p"
| "update_fields (arg # rest) p =
     then_do (split_colon arg) (\<lambda>kv. update_fields rest (AList.update (fst kv) (JStr (snd kv)) p))"

definition update_payload :: "'f env \<Rightarrow> str list \<Rightarrow> exn + 'f payload" where
  "update_payload E args =
     then_do (subscript args 0) (\<lambda>a0. then_do (py_int E a0) (\<lambda>i.
       update_fields (drop 1 args) [(lit ''command'', JStr (lit ''update'')), (lit ''id'', JInt i)]))"

definition user_payload :: "'f env \<Rightarrow> str \<Rightarrow> str list \<Rightarrow> exn + 'f payload" where
  \<comment> \<open>the dict literal of USER create and USER delete\<close>
  "user_payload E cmd args =
     then_do (subscript args 0) (\<lambda>a0. then_do (py_int E a0) (\<lambda>i.
     then_do (subscript args 1) (\<lambda>username.
     then_do (subscript args 2) (\<lambda>email.
     then_do (subscript args 3) (\<lambda>password.
       Inr [(lit ''command'', JStr cmd), (lit ''id'', JInt i), (lit ''username'', JStr username),
            (lit ''email'', JStr email), (lit ''password'', JStr password)])))))"

definition product_create_payload :: "'f env \<Rightarrow> str list \<Rightarrow> exn + 'f payload" where
  "product_create_payload E args =
     then_do (subscript args 0) (\<lambda>a0. then_do (py_int E a0) (\<lambda>i.
     then_do (subscript args 1) (\<lambda>name.
     then_do (subscript args 2) (\<lambda>description.
     then_do (subscript args 3) (\<lambda>a3. then_do (py_float E a3) (\<lambda>price.
     then_do (subscript args 4) (\<lambda>a4. then_do (py_int E a4) (\<lambda>quantity.
       Inr [(lit ''command'', JStr (lit ''create'')), (lit ''id'', JInt i),
            (lit ''name'', JStr name), (lit ''description'', JStr description),
            (lit ''price'', JFloat price), (lit ''quantity'', JInt quantity)]))))))))"

definition product_delete_payload :: "'f env \<Rightarrow> str list \<Rightarrow> exn + 'f payload" where
  "product_delete_payload E args =
     then_do (subscript args 0) (\<lambda>a0. then_do (py_int E a0) (\<lambda>i.
     then_do (subscript args 1) (\<lambda>name.
     then_do (subscript args 2) (\<lambda>a2. then_do (py_float E a2) (\<lambda>price.
     then_do (subscript args 3) (\<lambda>a3. then_do (py_int E a3) (\<lambda>quantity.
       Inr [(lit ''command'', JStr (lit ''delete'')), (lit ''id'', JInt i),
            (lit ''name'', JStr name), (lit ''price'', JFloat price),
            (lit ''quantity'', JInt quantity)])))))))"

definition order_place_payload :: "'f env \<Rightarrow> str list \<Rightarrow> exn + 'f payload" where
  "order_place_payload E args =
     then_do (subscript args 0) (\<lambda>a0. then_do (py_int E a0) (\<lambda>product_id.
     then_do (subscript args 1) (\<lambda>a1. then_do (py_int E a1) (\<lambda>user_id.
     then_do (subscript args 2) (\<lambda>a2. then_do (py_int E a2) (\<lambda>quantity.
       Inr [(lit ''command'', JStr (lit ''place order'')), (lit ''product_id'', JInt product_id),
            (lit ''user_id'', JInt user_id), (lit ''quantity'', JInt quantity)]))))))"

definition post_request :: "str \<Rightarrow> exn + 'f payload \<Rightarrow> exn + 'f request" where
  \<comment> \<open>\<^verbatim>\<open>requests.post(base_endpoint, json=payload, headers=headers)\<close>, once the payload is built\<close>
  "post_request base_endpoint pl = then_do pl (\<lambda>p. Inr (Post base_endpoint p json_headers))"

definition get_request :: "str \<Rightarrow> str list \<Rightarrow> exn + 'f request" where
  \<comment> \<open>\<^verbatim>\<open>requests.get(f"{base_endpoint}/{args[0]}")\<close>\<close>
  "get_request base_endpoint args =
     then_do (subscript args 0) (\<lambda>ident. Inr (Get (base_endpoint @ lit ''/'' @ ident)))"

subsection \<open>The command handlers\<close>

definition user_try :: "'f env \<Rightarrow> str \<Rightarrow> str list \<Rightarrow> 'f world \<Rightarrow> 'f outcome option" where
  \<comment> \<open>the \<^verbatim>\<open>try\<close> block of the branch of \<^verbatim>\<open>handle_user_command\<close> that \<open>command\<close> selects\<close>
  "user_try E command args w =
     (let base_endpoint = order_service_url E @ lit ''/user'' in
      if command = lit ''create'' then
        Some (send E (post_request base_endpoint (user_payload E (lit ''create'') args)) w)
      else if command = lit ''get'' then
        Some (send E (get_request base_endpoint args) w)
      else if command = lit ''update'' then
        Some (send E (post_request base_endpoint (update_payload E args)) w)
      else if command = lit ''delete'' then
        Some (send E (post_request base_endpoint (user_payload E (lit ''delete'') args)) w)
      else None)"

definition handle_user_command :: "'f env \<Rightarrow> str \<Rightarrow> str list \<Rightarrow> 'f world \<Rightarrow> 'f world" where
  "handle_user_command E command args w =
     (case user_try E command args w of
        Some body \<Rightarrow> try_except body failed_placeholder
      | None \<Rightarrow> w)"

definition product_try :: "'f env \<Rightarrow> str \<Rightarrow> str list \<Rightarrow> 'f world \<Rightarrow> 'f outcome option" where
  "product_try E command args w =
     (let base_endpoint = order_service_url E @ lit ''/product'' in
      if command = lit ''create'' then
        Some (send E (post_request base_endpoint (product_create_payload E args)) w)
      else if command = lit ''info'' then
        Some (send E (get_request base_endpoint args) w)
      else if command = lit ''update'' then
        Some (send E (post_request base_endpoint (update_payload E args)) w)
      else if command = lit ''delete'' then
        Some (send E (post_request base_endpoint (product_delete_payload E args)) w)
      else None)"

definition handle_product_command :: "'f env \<Rightarrow> str \<Rightarrow> str list \<Rightarrow> 'f world \<Rightarrow> 'f world" where
  "handle_product_command E command args w =
     (case product_try E command args w of
        Some body \<Rightarrow> try_except body failed_placeholder
      | None \<Rightarrow> w)"

definition order_try :: "'f env \<Rightarrow> str \<Rightarrow> str list \<Rightarrow> 'f world \<Rightarrow> 'f outcome option" where
  "order_try E command args w =
     (let base_endpoint = order_service_url E @ lit ''/order'' in
      if command = lit ''place'' then
        Some (send E (post_request base_endpoint (order_place_payload E args)) w)
      else None)"

definition handle_order_command :: "'f env \<Rightarrow> str \<Rightarrow> str list \<Rightarrow> 'f world \<Rightarrow> 'f world" where
  "handle_order_command E command args w =
     (case order_try E command args w of
        Some body \<Rightarrow> try_except body invalid_request
      | None \<Rightarrow> w)"

subsection \<open>process\_command\<close>

definition tokenize :: "'f env \<Rightarrow> str \<Rightarrow> (str \<times> str \<times> str list) option" where
  \<comment> \<open>the first lines of \<^verbatim>\<open>process_command\<close>: \<open>None\<close> is the early return on no token\<close>
  "tokenize E line =
     (let parts = split line in
      if parts = [] then None
      else Some (upper E (parts ! 0),
                 if length parts > 1 then lower E (parts ! 1) else [],
                 drop 2 parts))"

definition process_command :: "'f env \<Rightarrow> str \<Rightarrow> 'f world \<Rightarrow> 'f world" where
  "process_command E line w =
     (case tokenize E line of
        None \<Rightarrow> w
      | Some (service, command, args) \<Rightarrow>
          if service = lit ''USER'' then handle_user_command E command args w
          else if service = lit ''PRODUCT'' then handle_product_command E command args w
          else if service = lit ''ORDER'' then handle_order_command E command args w
          else w)"

subsection \<open>parse\_workload\<close>

definition skipped :: "str \<Rightarrow> bool" where
  \<comment> \<open>\<^verbatim>\<open>not line or line.startswith('#') or line.startswith('//')\<close>\<close>
  "skipped line = (line = [] \<or> startswith line (lit ''#'') \<or> startswith line (lit ''//''))"

definition first_real_command :: "str list \<Rightarrow> str option" where
  \<comment> \<open>the first loop: \<open>None\<close> when no line qualifies\<close>
  "first_real_command lines = List.find (\<lambda>line. \<not> skipped line) lines"

definition handle_line :: "'f env \<Rightarrow> str \<Rightarrow> 'f world \<Rightarrow> 'f world" where
  \<comment> \<open>body of the main loop, on a stripped line\<close>
  "handle_line E line w =
     (if skipped line then w
      else if line = lit ''shutdown'' then
        (let w1 = print (lit ''Shutdown command detected'') w in
         if exists restart_flag_file w1
         then print (lit ''Removed restart flag file due to shutdown'')
                (remove restart_flag_file w1)
         else w1)
      else if line = lit ''restart'' then
        print (lit ''Restart command detected, keeping existing database'') w
      else process_command E line w)"

definition prepare :: "str list \<Rightarrow> 'f world \<Rightarrow> 'f world" where
  \<comment> \<open>the reset decision and the creation of the flag file, on the stripped lines\<close>
  "prepare lines w =
     (let restart_command = (first_real_command lines = Some (lit ''restart''));
          w1 = (if \<not> exists restart_flag_file w \<and> \<not> restart_command
                then reset_databases
                       (print (lit ''No restart flag found and first command is not restart. ''
                               @ lit ''Deleting all database files...'') w)
                else w)
      in if \<not> exists restart_flag_file w1
         then print (lit ''Created restart flag file'')
                (write_file restart_flag_file
                   (lit ''Flag indicating that services have been started'') w1)
         else w1)"

definition parse_workload :: "'f env \<Rightarrow> str list \<Rightarrow> 'f world \<Rightarrow> 'f world" where
  \<comment> \<open>the argument is the result of \<^verbatim>\<open>f.readlines()\<close>\<close>
  "parse_workload E raw w =
     (let lines = map strip raw in fold (handle_line E) lines (prepare lines w))"

subsection \<open>Notions used by the properties\<close>

definition keeps :: "'f world \<Rightarrow> 'f world \<Rightarrow> bool" where
  \<comment> \<open>the second world has the files and the reset count of the first\<close>
  "keeps w w' = (fs w' = fs w \<and> resets w' = resets w)"

definition blank_or_comment :: "str \<Rightarrow> bool" where
  \<comment> \<open>the spec's words: a line that is blank or starts with \<open>#\<close> (35) or \<open>//\<close> (47, 47)\<close>
  "blank_or_comment s =
     (case s of
        [] \<Rightarrow> True
      | c # cs \<Rightarrow> c = 35 \<or> (c = 47 \<and> (case cs of [] \<Rightarrow> False | d # ds \<Rightarrow> d = 47)))"

definition last_processed :: "str list \<Rightarrow> str option" where
  \<comment> \<open>the last line that is neither blank nor a comment\<close>
  "last_processed lines =
     (case filter (\<lambda>line. \<not> blank_or_comment line) lines of
        [] \<Rightarrow> None
      | x # xs \<Rightarrow> Some (last (x # xs)))"

definition ascii_letter :: "nat \<Rightarrow> bool" where
  "ascii_letter c = ((65 \<le> c \<and> c \<le> 90) \<or> (97 \<le> c \<and> c \<le> 122))"

definition case_variant :: "nat \<Rightarrow> nat \<Rightarrow> bool" where
  \<comment> \<open>the same character, or the same ASCII letter in the other case\<close>
  "case_variant c d =
     (d = c \<or> (ascii_letter c \<and> ascii_letter d \<and> (d = c + 32 \<or> c = d + 32)))"

definition service_action :: "'f env \<Rightarrow> str \<Rightarrow> (str \<times> str) option" where
  \<comment> \<open>the (service, action) pair of a line\<close>
  "service_action E line = map_option (\<lambda>t. (fst t, fst (snd t))) (tokenize E line)"

definition sample_env :: "http_outcome \<Rightarrow> unit env" where
  \<comment> \<open>an environment whose service answers every request alike; the parameters of the
      string functions reject or leave unchanged\<close>
  "sample_env r =
     \<lparr>order_service_url = lit ''http://127.0.0.1:8000'', net = (\<lambda>hist rq. r),
      float_of = (\<lambda>s. None), int_rest = (\<lambda>s. None),
      upper_rest = (\<lambda>s. s), lower_rest = (\<lambda>s. s)\<rparr>"

definition sample_world :: "(str \<rightharpoonup> str) \<Rightarrow> unit world" where
  \<comment> \<open>a world with the given files, nothing printed and nothing sent\<close>
  "sample_world files = \<lparr>fs = files, out = [], reqs = [], resets = 0\<rparr>"

section \<open>Properties\<close>

lemmas str_eval = lit_def isspace_def strip_def split_def startswith_def
lemmas case_eval = upper_def lower_def plain_def char_upper_def char_lower_def
lemmas int_eval = py_int_def ascii_int_def isdigit_def digits_value_def

subsection \<open>Printing and the reset action\<close>

lemma fs_print [simp]: "fs (print l w) = fs w"
  by (simp add: print_def)

lemma resets_print [simp]: "resets (print l w) = resets w"
  by (simp add: print_def)

lemma reqs_print [simp]: "reqs (print l w) = reqs w"
  by (simp add: print_def)

lemma out_print [simp]: "out (print l w) = out w @ [l]"
  by (simp add: print_def)

lemma fs_reset_databases:
  "fs (reset_databases w) =
     (fs w)(lit ''compiled/UserService/users.txt'' \<mapsto> [],
            lit ''compiled/ProductService/products.txt'' \<mapsto> [],
            lit ''compiled/OrderService/orders.txt'' \<mapsto> [])"
  by (simp add: reset_databases_def db_files_def delete_db_file_def recreate_db_file_def
      remove_def write_file_def exists_def Let_def fun_eq_iff)

lemma resets_reset_databases: "resets (reset_databases w) = Suc (resets w)"
  by (simp add: reset_databases_def db_files_def delete_db_file_def recreate_db_file_def
      remove_def write_file_def exists_def Let_def)

text \<open>
  C4. The reset action is idempotent on the files: a second reset right after a first one
  leaves the file map of the first. After a reset each of the three database files exists
  and is empty, and every other path is as it was before.
\<close>

theorem reset_idempotent:
  "fs (reset_databases (reset_databases w)) = fs (reset_databases w) \<and>
   fs (reset_databases w) (lit ''compiled/UserService/users.txt'') = Some [] \<and>
   fs (reset_databases w) (lit ''compiled/ProductService/products.txt'') = Some [] \<and>
   fs (reset_databases w) (lit ''compiled/OrderService/orders.txt'') = Some [] \<and>
   (\<forall>p. p \<notin> set db_files \<longrightarrow> fs (reset_databases w) p = fs w p)"
  by (simp add: fs_reset_databases db_files_def fun_eq_iff lit_def)

theorem reset_idempotent_witness:
  "lit ''notes.txt'' \<notin> set db_files \<and>
   fs (reset_databases (sample_world [lit ''compiled/UserService/users.txt'' \<mapsto> lit ''1 alice'',
                                      lit ''notes.txt'' \<mapsto> lit ''keep'']))
      (lit ''notes.txt'') = Some (lit ''keep'') \<and>
   fs (reset_databases (sample_world [lit ''compiled/UserService/users.txt'' \<mapsto> lit ''1 alice'',
                                      lit ''notes.txt'' \<mapsto> lit ''keep'']))
      (lit ''compiled/UserService/users.txt'') = Some []"
  using reset_idempotent [of "sample_world [lit ''compiled/UserService/users.txt'' \<mapsto> lit ''1 alice'',
                                            lit ''notes.txt'' \<mapsto> lit ''keep'']"]
  by (simp add: db_files_def sample_world_def lit_def)

subsection \<open>What a command leaves untouched\<close>

lemma fs_report [simp]: "fs (report r w) = fs w"
  by (simp add: report_def)

lemma resets_report [simp]: "resets (report r w) = resets w"
  by (simp add: report_def)

lemma reqs_report [simp]: "reqs (report r w) = reqs w"
  by (simp add: report_def)

lemma keeps_refl [simp]: "keeps w w"
  by (simp add: keeps_def)

lemma keeps_print [simp]: "keeps w (print l w') = keeps w w'"
  by (simp add: keeps_def)

lemma keeps_try_send [simp]: "keeps w (try_except (send E rq w) msg)"
  by (simp add: try_except_def send_def http_def keeps_def
      split: sum.splits http_outcome.splits prod.splits)

lemma keeps_user: "keeps w (handle_user_command E c args w)"
  by (simp add: handle_user_command_def user_try_def Let_def)

lemma keeps_product: "keeps w (handle_product_command E c args w)"
  by (simp add: handle_product_command_def product_try_def Let_def)

lemma keeps_order: "keeps w (handle_order_command E c args w)"
  by (simp add: handle_order_command_def order_try_def Let_def)

lemma keeps_process_command: "keeps w (process_command E line w)"
  by (simp add: process_command_def keeps_user keeps_product keeps_order split: option.splits)

lemma fs_process_command [simp]: "fs (process_command E line w) = fs w"
  using keeps_process_command [of w E line] by (simp add: keeps_def)

lemma resets_process_command [simp]: "resets (process_command E line w) = resets w"
  using keeps_process_command [of w E line] by (simp add: keeps_def)

subsection \<open>The try blocks\<close>

lemma then_do_Inl [simp]: "then_do (Inl e) f = Inl e"
  by (simp add: then_do_def)

lemma then_do_Inr [simp]: "then_do (Inr x) f = f x"
  by (simp add: then_do_def)

lemma send_Inl [simp]: "send E (Inl e) w = Raised e w"
  by (simp add: send_def)

lemma send_Inr:
  "send E (Inr r) w =
     (case net E (reqs w) r of
        Response sc txt \<Rightarrow> Done (report (sc, txt) (w\<lparr>reqs := reqs w @ [r]\<rparr>))
      | Transport_Failure \<Rightarrow> Raised RequestException (w\<lparr>reqs := reqs w @ [r]\<rparr>))"
  by (simp add: send_def http_def split: http_outcome.splits)

lemma send_Raised_out: "send E rq w = Raised e w' \<Longrightarrow> out w' = out w"
  by (cases rq) (auto simp add: send_Inr split: http_outcome.splits)

lemma try_except_Raised [simp]: "try_except (Raised e w') msg = print msg w'"
  by (simp add: try_except_def)

lemma try_except_Done [simp]: "try_except (Done w') msg = w'"
  by (simp add: try_except_def)

lemma user_try_out: "user_try E c args w = Some (Raised e w') \<Longrightarrow> out w' = out w"
  by (auto simp add: user_try_def Let_def split: if_splits dest: send_Raised_out)

lemma product_try_out: "product_try E c args w = Some (Raised e w') \<Longrightarrow> out w' = out w"
  by (auto simp add: product_try_def Let_def split: if_splits dest: send_Raised_out)

lemma order_try_out: "order_try E c args w = Some (Raised e w') \<Longrightarrow> out w' = out w"
  by (auto simp add: order_try_def Let_def split: if_splits dest: send_Raised_out)

subsection \<open>Lookups\<close>

lemma get_request_Cons [simp]:
  "get_request base (a # args) = Inr (Get (base @ lit ''/'' @ a))"
  by (simp add: get_request_def subscript_def)

lemma reqs_try_send_Inr [simp]: "reqs (try_except (send E (Inr r) w) msg) = reqs w @ [r]"
  by (simp add: send_Inr split: http_outcome.splits)

text \<open>
  C8, as stated, fails: with a non-empty argument list the exception branch of USER get is
  reached when the HTTP call itself raises.
\<close>

theorem lookup_counterexample:
  "[lit ''abc''] \<noteq> [] \<and>
   user_try (sample_env Transport_Failure) (lit ''get'') [lit ''abc''] (sample_world Map.empty)
     = Some (Raised RequestException
               ((sample_world Map.empty)\<lparr>reqs := [Get (lit ''http://127.0.0.1:8000/user/abc'')]\<rparr>)) \<and>
   out (handle_user_command (sample_env Transport_Failure) (lit ''get'') [lit ''abc'']
          (sample_world Map.empty)) = [lit ''Failed:  {}'']"
  by (simp add: handle_user_command_def user_try_def send_Inr sample_env_def sample_world_def
      failed_placeholder_def lit_def)

text \<open>
  C8, amended. USER get and PRODUCT info never coerce the id: given at least one argument
  they always issue one GET to the base URL followed by \<open>/user/\<close> or \<open>/product/\<close> and the
  first argument as it is written, and the exception branch is reached only when the HTTP
  call itself raises.
\<close>

theorem lookup_raw_id:
  "args \<noteq> [] \<Longrightarrow>
   reqs (handle_user_command E (lit ''get'') args w)
     = reqs w @ [Get (order_service_url E @ lit ''/user/'' @ hd args)] \<and>
   reqs (handle_product_command E (lit ''info'') args w)
     = reqs w @ [Get (order_service_url E @ lit ''/product/'' @ hd args)] \<and>
   (user_try E (lit ''get'') args w = Some (Raised e w') \<longrightarrow>
      e = RequestException \<and>
      net E (reqs w) (Get (order_service_url E @ lit ''/user/'' @ hd args)) = Transport_Failure) \<and>
   (product_try E (lit ''info'') args w = Some (Raised e w') \<longrightarrow>
      e = RequestException \<and>
      net E (reqs w) (Get (order_service_url E @ lit ''/product/'' @ hd args)) = Transport_Failure)"
  by (cases args)
    (auto simp add: handle_user_command_def handle_product_command_def user_try_def
      product_try_def send_Inr Let_def lit_def split: http_outcome.splits)

theorem lookup_raw_id_witness:
  "[lit ''abc''] \<noteq> [] \<and>
   reqs (handle_user_command (sample_env (Response 404 (lit ''{}''))) (lit ''get'') [lit ''abc'']
           (sample_world Map.empty)) = [Get (lit ''http://127.0.0.1:8000/user/abc'')] \<and>
   reqs (handle_product_command (sample_env Transport_Failure) (lit ''info'') [lit ''x1'', lit ''y'']
           (sample_world Map.empty)) = [Get (lit ''http://127.0.0.1:8000/product/x1'')]"
  using lookup_raw_id [of "[lit ''abc'']" "sample_env (Response 404 (lit ''{}''))" "sample_world Map.empty"]
    lookup_raw_id [of "[lit ''x1'', lit ''y'']" "sample_env Transport_Failure" "sample_world Map.empty"]
  by (simp add: sample_env_def sample_world_def lit_def)

subsection \<open>Updates\<close>

lemma update_fields_no_colon:
  "\<exists>a\<in>set rest. 58 \<notin> set a \<Longrightarrow> update_fields rest p = Inl ValueError"
proof (induction rest arbitrary: p)
  case Nil
  then show ?case by simp
next
  case (Cons a rest)
  show ?case
  proof (cases "58 \<in> set a")
    case True
    with Cons.prems have "\<exists>a\<in>set rest. 58 \<notin> set a" by auto
    with True Cons.IH show ?thesis by (simp add: split_colon_def)
  next
    case False
    then show ?thesis by (simp add: split_colon_def)
  qed
qed

lemma update_fields_colons:
  "\<forall>a\<in>set rest. 58 \<in> set a \<Longrightarrow>
   update_fields rest p = Inr (fold (\<lambda>a. AList.update (colon_key a) (JStr (colon_value a))) rest p)"
  by (induction rest arbitrary: p) (simp_all add: split_colon_def)

lemma py_int_Inl: "py_int E s = Inl e \<Longrightarrow> e = ValueError"
  by (simp add: py_int_def split: option.splits)

lemma update_payload_no_colon:
  assumes "\<exists>a\<in>set (drop 1 args). 58 \<notin> set a"
  shows "update_payload E args = Inl ValueError"
proof (cases args)
  case Nil
  with assms show ?thesis by simp
next
  case (Cons a0 rest)
  with assms have "update_fields rest p = Inl ValueError" for p :: "'a payload"
    by (simp add: update_fields_no_colon)
  with Cons show ?thesis
    by (cases "py_int E a0") (auto simp add: update_payload_def subscript_def dest: py_int_Inl)
qed

text \<open>
  C9. When an argument after the id of a USER update or PRODUCT update has no colon
  (character 58), the payload construction raises before the HTTP call: the handler prints
  \<open>Failed:  {}\<close> and does nothing else, so no request is sent.
\<close>

theorem update_without_colon:
  "\<exists>a\<in>set (drop 1 args). 58 \<notin> set a \<Longrightarrow>
   handle_user_command E (lit ''update'') args w = print (lit ''Failed:  {}'') w \<and>
   handle_product_command E (lit ''update'') args w = print (lit ''Failed:  {}'') w \<and>
   reqs (handle_user_command E (lit ''update'') args w) = reqs w \<and>
   reqs (handle_product_command E (lit ''update'') args w) = reqs w"
  by (simp add: handle_user_command_def handle_product_command_def user_try_def product_try_def
      Let_def update_payload_no_colon post_request_def failed_placeholder_def)
    (simp add: lit_def)

theorem update_without_colon_witness:
  "(\<exists>a\<in>set (drop 1 [lit ''7'', lit ''email:new@x.com'', lit ''active'']). 58 \<notin> set a) \<and>
   handle_user_command (sample_env (Response 200 (lit ''ok''))) (lit ''update'')
       [lit ''7'', lit ''email:new@x.com'', lit ''active''] (sample_world Map.empty)
     = (sample_world Map.empty)\<lparr>out := [lit ''Failed:  {}'']\<rparr> \<and>
   handle_product_command (sample_env (Response 200 (lit ''ok''))) (lit ''update'')
       [lit ''7'', lit ''email:new@x.com'', lit ''active''] (sample_world Map.empty)
     = (sample_world Map.empty)\<lparr>out := [lit ''Failed:  {}'']\<rparr>"
proof -
  have h: "\<exists>a\<in>set (drop 1 [lit ''7'', lit ''email:new@x.com'', lit ''active'']). 58 \<notin> set a"
    by (simp add: lit_def)
  show ?thesis
    using h update_without_colon [OF h, of "sample_env (Response 200 (lit ''ok''))" "sample_world Map.empty"]
    by (simp add: print_def sample_world_def)
qed

subsection \<open>The main loop\<close>

lemma skipped_iff: "skipped s = blank_or_comment s"
proof (cases s)
  case Nil
  then show ?thesis by (simp add: skipped_def blank_or_comment_def)
next
  case (Cons c cs)
  then show ?thesis
    by (cases cs) (auto simp add: skipped_def blank_or_comment_def startswith_def lit_def)
qed

lemma not_skipped_shutdown [simp]: "\<not> skipped (lit ''shutdown'')"
  by (simp add: skipped_def startswith_def lit_def)

lemma first_real_command_found:
  "list_all skipped before \<Longrightarrow> \<not> skipped l \<Longrightarrow>
   first_real_command (before @ l # rest) = Some l"
  by (induction before) (simp_all add: first_real_command_def)

lemma first_real_command_none:
  "list_all skipped ls \<Longrightarrow> first_real_command ls = None"
  by (induction ls) (simp_all add: first_real_command_def)

lemma resets_handle_line [simp]: "resets (handle_line E line w) = resets w"
  by (simp add: handle_line_def Let_def remove_def)

lemma fs_handle_line:
  "fs (handle_line E line w) =
     (if line = lit ''shutdown'' then (fs w)(restart_flag_file := None) else fs w)"
  by (auto simp add: handle_line_def Let_def remove_def exists_def)

lemma resets_fold_handle_line [simp]: "resets (fold (handle_line E) ls w) = resets w"
  by (induction ls arbitrary: w) simp_all

lemma flag_fold_handle_line:
  "fs (fold (handle_line E) ls w) restart_flag_file =
     (if lit ''shutdown'' \<in> set ls then None else fs w restart_flag_file)"
  by (induction ls arbitrary: w) (auto simp add: fs_handle_line)

lemma other_fold_handle_line:
  "p \<noteq> restart_flag_file \<Longrightarrow> fs (fold (handle_line E) ls w) p = fs w p"
  by (induction ls arbitrary: w) (simp_all add: fs_handle_line)

lemma flag_not_db: "p \<in> set db_files \<Longrightarrow> p \<noteq> restart_flag_file"
  by (auto simp add: db_files_def restart_flag_file_def lit_def)

lemma flag_reset_databases [simp]:
  "fs (reset_databases w) restart_flag_file = fs w restart_flag_file"
  by (simp add: fs_reset_databases restart_flag_file_def lit_def)

lemma db_reset_databases: "p \<in> set db_files \<Longrightarrow> fs (reset_databases w) p = Some []"
  by (auto simp add: fs_reset_databases db_files_def)

lemma resets_prepare:
  "resets (prepare ls w) =
     (if \<not> exists restart_flag_file w \<and> first_real_command ls \<noteq> Some (lit ''restart'')
      then Suc (resets w) else resets w)"
  by (simp add: prepare_def Let_def resets_reset_databases write_file_def exists_def)

lemma db_prepare:
  assumes "p \<in> set db_files"
  shows "fs (prepare ls w) p =
     (if \<not> exists restart_flag_file w \<and> first_real_command ls \<noteq> Some (lit ''restart'')
      then Some [] else fs w p)"
  using flag_not_db [OF assms]
  by (simp add: prepare_def Let_def write_file_def exists_def db_reset_databases [OF assms])

lemma flag_prepare: "fs (prepare ls w) restart_flag_file \<noteq> None"
  by (simp add: prepare_def Let_def write_file_def exists_def)

lemma resets_parse_workload:
  "resets (parse_workload E raw w) =
     (if \<not> exists restart_flag_file w \<and> first_real_command (map strip raw) \<noteq> Some (lit ''restart'')
      then Suc (resets w) else resets w)"
  by (simp add: parse_workload_def Let_def resets_prepare)

lemma db_parse_workload:
  assumes "p \<in> set db_files"
  shows "fs (parse_workload E raw w) p =
     (if \<not> exists restart_flag_file w \<and> first_real_command (map strip raw) \<noteq> Some (lit ''restart'')
      then Some [] else fs w p)"
  using flag_not_db [OF assms]
  by (simp add: parse_workload_def Let_def other_fold_handle_line db_prepare [OF assms])

lemma flag_parse_workload:
  "exists restart_flag_file (parse_workload E raw w) \<longleftrightarrow> lit ''shutdown'' \<notin> set (map strip raw)"
  using flag_prepare [of "map strip raw" w]
  by (simp add: parse_workload_def Let_def exists_def flag_fold_handle_line)

text \<open>
  C1. Let the lines of the file be stripped. When \<open>l\<close> is the first line that is neither
  blank nor a comment, the reset action is invoked (once) exactly when the flag file is
  absent at the start and \<open>l\<close> is not \<open>restart\<close>. When every line is blank or a comment,
  it is invoked exactly when the flag file is absent. A run in which the reset is invoked
  leaves the three database files empty; any other run leaves them as they were.
\<close>

theorem reset_policy:
  "(list_all (\<lambda>x. blank_or_comment (strip x)) before \<and> \<not> blank_or_comment (strip l) \<longrightarrow>
      resets (parse_workload E (before @ l # rest) w) =
        (if fs w (lit ''restart_flag.txt'') = None \<and> strip l \<noteq> lit ''restart''
         then Suc (resets w) else resets w)) \<and>
   (list_all (\<lambda>x. blank_or_comment (strip x)) raw \<longrightarrow>
      resets (parse_workload E raw w) =
        (if fs w (lit ''restart_flag.txt'') = None then Suc (resets w) else resets w)) \<and>
   (\<forall>p\<in>set db_files.
      fs (parse_workload E raw w) p =
        (if resets (parse_workload E raw w) = Suc (resets w) then Some [] else fs w p))"
proof (intro conjI impI ballI)
  assume a: "list_all (\<lambda>x. blank_or_comment (strip x)) before \<and> \<not> blank_or_comment (strip l)"
  then have "list_all skipped (map strip before)" "\<not> skipped (strip l)"
    by (simp_all add: skipped_iff list_all_iff)
  then have "first_real_command (map strip (before @ l # rest)) = Some (strip l)"
    using first_real_command_found [of "map strip before" "strip l" "map strip rest"] by simp
  then show "resets (parse_workload E (before @ l # rest) w) =
        (if fs w (lit ''restart_flag.txt'') = None \<and> strip l \<noteq> lit ''restart''
         then Suc (resets w) else resets w)"
    by (simp only: resets_parse_workload) (simp add: exists_def restart_flag_file_def)
next
  assume "list_all (\<lambda>x. blank_or_comment (strip x)) raw"
  then have "list_all skipped (map strip raw)"
    by (simp add: skipped_iff list_all_iff)
  then have "first_real_command (map strip raw) = None"
    by (rule first_real_command_none)
  then show "resets (parse_workload E raw w) =
        (if fs w (lit ''restart_flag.txt'') = None then Suc (resets w) else resets w)"
    by (simp only: resets_parse_workload) (simp add: exists_def restart_flag_file_def)
next
  fix p
  assume "p \<in> set db_files"
  then show "fs (parse_workload E raw w) p =
        (if resets (parse_workload E raw w) = Suc (resets w) then Some [] else fs w p)"
    by (simp add: db_parse_workload resets_parse_workload)
qed

theorem reset_policy_witness:
  "list_all (\<lambda>x. blank_or_comment (strip x)) [lit ''# header'', [32, 10], lit ''  // note''] \<and>
   \<not> blank_or_comment (strip ([0xA0] @ lit ''restart'' @ [10])) \<and>
   \<not> blank_or_comment (strip (lit ''user get 1'')) \<and>
   resets (parse_workload (sample_env Transport_Failure)
             ([lit ''# header'', [32, 10], lit ''  // note''] @ ([0xA0] @ lit ''restart'' @ [10])
                # [lit ''user get 1''])
             (sample_world Map.empty)) = 0 \<and>
   resets (parse_workload (sample_env Transport_Failure)
             ([lit ''# header'', [32, 10], lit ''  // note''] @ lit ''user get 1''
                # [lit ''restart''])
             (sample_world Map.empty)) = 1 \<and>
   resets (parse_workload (sample_env Transport_Failure)
             ([lit ''# header'', [32, 10], lit ''  // note''] @ lit ''user get 1''
                # [lit ''restart''])
             (sample_world [lit ''restart_flag.txt'' \<mapsto> lit ''x''])) = 0 \<and>
   resets (parse_workload (sample_env Transport_Failure)
             [lit ''# header'', [32, 10], lit ''  // note''] (sample_world Map.empty)) = 1 \<and>
   lit ''compiled/UserService/users.txt'' \<in> set db_files \<and>
   fs (parse_workload (sample_env Transport_Failure)
         [lit ''# header'', [32, 10], lit ''  // note'']
         (sample_world [lit ''compiled/UserService/users.txt'' \<mapsto> lit ''1 alice'']))
      (lit ''compiled/UserService/users.txt'') = Some []"
proof -
  have b: "list_all (\<lambda>x. blank_or_comment (strip x)) [lit ''# header'', [32, 10], lit ''  // note'']"
    by (simp add: blank_or_comment_def str_eval)
  have r: "strip ([0xA0] @ lit ''restart'' @ [10]) = lit ''restart''"
    by (simp add: str_eval)
  have u: "strip (lit ''user get 1'') = lit ''user get 1''"
    by (simp add: str_eval)
  have nr: "\<not> blank_or_comment (strip ([0xA0] @ lit ''restart'' @ [10]))"
    by (simp only: r) (simp add: blank_or_comment_def lit_def)
  have nu: "\<not> blank_or_comment (strip (lit ''user get 1''))"
    by (simp only: u) (simp add: blank_or_comment_def lit_def)
  have ne: "lit ''user get 1'' \<noteq> lit ''restart''"
    by (simp add: lit_def)
  have d: "lit ''compiled/UserService/users.txt'' \<in> set db_files"
    by (simp add: db_files_def)
  note t1 = reset_policy [of "[lit ''# header'', [32, 10], lit ''  // note'']"
      "[0xA0] @ lit ''restart'' @ [10]" "sample_env Transport_Failure" "[lit ''user get 1'']"
      "sample_world Map.empty" "[]"]
  note t2 = reset_policy [of "[lit ''# header'', [32, 10], lit ''  // note'']"
      "lit ''user get 1''" "sample_env Transport_Failure" "[lit ''restart'']"
      "sample_world Map.empty" "[lit ''# header'', [32, 10], lit ''  // note'']"]
  note t3 = reset_policy [of "[lit ''# header'', [32, 10], lit ''  // note'']"
      "lit ''user get 1''" "sample_env Transport_Failure" "[lit ''restart'']"
      "sample_world [lit ''restart_flag.txt'' \<mapsto> lit ''x'']" "[]"]
  note t4 = reset_policy [of "[lit ''# header'', [32, 10], lit ''  // note'']"
      "lit ''user get 1''" "sample_env Transport_Failure" "[lit ''restart'']"
      "sample_world [lit ''compiled/UserService/users.txt'' \<mapsto> lit ''1 alice'']"
      "[lit ''# header'', [32, 10], lit ''  // note'']"]
  have w0: "fs (sample_world Map.empty) (lit ''restart_flag.txt'') = None"
    "fs (sample_world [lit ''compiled/UserService/users.txt'' \<mapsto> lit ''1 alice''])
       (lit ''restart_flag.txt'') = None"
    "fs (sample_world [lit ''restart_flag.txt'' \<mapsto> lit ''x'']) (lit ''restart_flag.txt'') \<noteq> None"
    "resets (sample_world f) = 0" for f
    by (simp_all add: sample_world_def lit_def)
  from t1 b nr r w0 have 1: "resets (parse_workload (sample_env Transport_Failure)
             ([lit ''# header'', [32, 10], lit ''  // note''] @ ([0xA0] @ lit ''restart'' @ [10])
                # [lit ''user get 1''])
             (sample_world Map.empty)) = 0"
    by simp
  from t2 b nu u ne w0 have 2: "resets (parse_workload (sample_env Transport_Failure)
             ([lit ''# header'', [32, 10], lit ''  // note''] @ lit ''user get 1''
                # [lit ''restart''])
             (sample_world Map.empty)) = 1"
    by simp
  from t3 b nu u ne w0 have 3: "resets (parse_workload (sample_env Transport_Failure)
             ([lit ''# header'', [32, 10], lit ''  // note''] @ lit ''user get 1''
                # [lit ''restart''])
             (sample_world [lit ''restart_flag.txt'' \<mapsto> lit ''x''])) = 0"
    by simp
  from t2 b w0 have 4: "resets (parse_workload (sample_env Transport_Failure)
             [lit ''# header'', [32, 10], lit ''  // note''] (sample_world Map.empty)) = 1"
    by simp
  from t4 b d w0 have 5: "fs (parse_workload (sample_env Transport_Failure)
         [lit ''# header'', [32, 10], lit ''  // note'']
         (sample_world [lit ''compiled/UserService/users.txt'' \<mapsto> lit ''1 alice'']))
      (lit ''compiled/UserService/users.txt'') = Some []"
    by simp
  from b nr nu 1 2 3 4 d 5 show ?thesis
    by blast
qed

text \<open>
  C2, as stated, fails: a \<open>shutdown\<close> line followed by another processed line leaves the
  flag file absent although the last processed line is not \<open>shutdown\<close>.
\<close>

theorem flag_lifecycle_counterexample:
  "last_processed (map strip [lit ''shutdown'', lit ''user get 1'']) = Some (lit ''user get 1'') \<and>
   lit ''user get 1'' \<noteq> lit ''shutdown'' \<and>
   \<not> exists restart_flag_file
       (parse_workload (sample_env (Response 200 (lit ''ok''))) [lit ''shutdown'', lit ''user get 1'']
          (sample_world Map.empty))"
proof -
  have a: "map strip [lit ''shutdown'', lit ''user get 1''] = [lit ''shutdown'', lit ''user get 1'']"
    by (simp add: str_eval)
  have b: "last_processed [lit ''shutdown'', lit ''user get 1''] = Some (lit ''user get 1'')"
    by (simp add: last_processed_def blank_or_comment_def lit_def)
  have c: "lit ''user get 1'' \<noteq> lit ''shutdown''"
    by (simp add: lit_def)
  show ?thesis
    by (simp only: a b c flag_parse_workload) simp
qed

text \<open>
  C2, amended. After a run the flag file exists if and only if no line of the file is
  \<open>shutdown\<close> (after stripping). Every \<open>shutdown\<close> line, at any position, leaves the flag
  file absent when it has been processed.
\<close>

theorem flag_lifecycle:
  "(exists restart_flag_file (parse_workload E raw w) \<longleftrightarrow> lit ''shutdown'' \<notin> set (map strip raw)) \<and>
   \<not> exists restart_flag_file (handle_line E (lit ''shutdown'') w') \<and>
   \<not> exists restart_flag_file (fold (handle_line E) (before @ [lit ''shutdown'']) w')"
  using flag_parse_workload [of E raw w]
  by (simp add: exists_def flag_fold_handle_line fs_handle_line)

theorem flag_lifecycle_witness:
  "exists restart_flag_file
     (parse_workload (sample_env (Response 200 (lit ''ok''))) [lit ''user get 1'', lit ''restart '']
        (sample_world Map.empty)) \<and>
   \<not> exists restart_flag_file
     (parse_workload (sample_env (Response 200 (lit ''ok'')))
        [lit ''user get 1'', lit '' shutdown'' @ [0xA0, 10]]
        (sample_world [restart_flag_file \<mapsto> lit ''x'']))"
proof -
  have a: "map strip [lit ''user get 1'', lit ''restart ''] = [lit ''user get 1'', lit ''restart'']"
    by (simp add: str_eval)
  have b: "map strip [lit ''user get 1'', lit '' shutdown'' @ [0xA0, 10]]
      = [lit ''user get 1'', lit ''shutdown'']"
    by (simp add: str_eval)
  have c: "lit ''shutdown'' \<notin> set [lit ''user get 1'', lit ''restart'']"
    by (simp add: lit_def)
  show ?thesis
    using c flag_lifecycle [of "sample_env (Response 200 (lit ''ok''))"
        "[lit ''user get 1'', lit ''restart '']" "sample_world Map.empty"]
      flag_lifecycle [of "sample_env (Response 200 (lit ''ok''))"
        "[lit ''user get 1'', lit '' shutdown'' @ [0xA0, 10]]"
        "sample_world [restart_flag_file \<mapsto> lit ''x'']"]
    by (simp only: a b) simp
qed

subsection \<open>Exceptions\<close>

lemma process_command_user:
  "tokenize E line = Some (lit ''USER'', command, args) \<Longrightarrow>
   process_command E line w = handle_user_command E command args w"
  by (simp add: process_command_def)

lemma process_command_product:
  "tokenize E line = Some (lit ''PRODUCT'', command, args) \<Longrightarrow>
   process_command E line w = handle_product_command E command args w"
  by (simp add: process_command_def lit_def)

lemma process_command_order:
  "tokenize E line = Some (lit ''ORDER'', command, args) \<Longrightarrow>
   process_command E line w = handle_order_command E command args w"
  by (simp add: process_command_def lit_def)

lemma handle_line_command:
  "\<not> blank_or_comment line \<Longrightarrow> line \<noteq> lit ''shutdown'' \<Longrightarrow> line \<noteq> lit ''restart'' \<Longrightarrow>
   handle_line E line w = process_command E line w"
  by (simp add: handle_line_def skipped_iff)

lemma id_payload_raises:
  assumes "args = [] \<or> py_int E (hd args) = Inl ValueError"
  shows "\<exists>e. user_payload E cmd args = Inl e"
    and "\<exists>e. update_payload E args = Inl e"
    and "\<exists>e. product_create_payload E args = Inl e"
    and "\<exists>e. product_delete_payload E args = Inl e"
    and "\<exists>e. order_place_payload E args = Inl e"
  using assms
  by (cases args; auto simp add: user_payload_def update_payload_def product_create_payload_def
      product_delete_payload_def order_place_payload_def subscript_def)+

lemma post_request_Inl [simp]: "post_request base (Inl e) = Inl e"
  by (simp add: post_request_def)

lemma id_failure_user:
  assumes "args = [] \<or> py_int E (hd args) = Inl ValueError"
    and "cu \<in> {lit ''create'', lit ''update'', lit ''delete''}"
  shows "handle_user_command E cu args w = print (lit ''Failed:  {}'') w"
proof -
  obtain e1 e2 where "user_payload E cu args = Inl e1" "update_payload E args = Inl e2"
    using id_payload_raises(1,2) [OF assms(1)] by blast
  with assms(2) show ?thesis
    by (auto simp add: handle_user_command_def user_try_def failed_placeholder_def lit_def)
qed

lemma id_failure_product:
  assumes "args = [] \<or> py_int E (hd args) = Inl ValueError"
    and "cp \<in> {lit ''create'', lit ''update'', lit ''delete''}"
  shows "handle_product_command E cp args w = print (lit ''Failed:  {}'') w"
proof -
  obtain e1 e2 e3 where "product_create_payload E args = Inl e1"
    "update_payload E args = Inl e2" "product_delete_payload E args = Inl e3"
    using id_payload_raises(2,3,4) [OF assms(1)] by blast
  with assms(2) show ?thesis
    by (auto simp add: handle_product_command_def product_try_def failed_placeholder_def lit_def)
qed

lemma id_failure_order:
  assumes "args = [] \<or> py_int E (hd args) = Inl ValueError"
  shows "handle_order_command E (lit ''place'') args w = print invalid_request w"
proof -
  obtain e where "order_place_payload E args = Inl e"
    using id_payload_raises(5) [OF assms] by blast
  then show ?thesis
    by (simp add: handle_order_command_def order_try_def)
qed

text \<open>
  C3. When the try block of a USER or PRODUCT branch raises, whatever the exception and
  wherever it is raised, the handler returns normally: it has printed nothing but the line
  \<open>Failed:  {}\<close>. The ORDER place handler prints the line with the body
  \<open>{"status":"Invalid Request"}\<close> instead. In particular a missing or non-integer id is
  reported so, with no request sent. In the main loop, a command line whose try block
  raises leaves the world with that one line printed, and the lines after it are processed
  from there.
\<close>

theorem exceptions_caught:
  "(user_try E cu args w = Some (Raised e w') \<longrightarrow>
      handle_user_command E cu args w = print (lit ''Failed:  {}'') w' \<and> out w' = out w) \<and>
   (product_try E cp args w = Some (Raised e w') \<longrightarrow>
      handle_product_command E cp args w = print (lit ''Failed:  {}'') w' \<and> out w' = out w) \<and>
   (order_try E co args w = Some (Raised e w') \<longrightarrow>
      handle_order_command E co args w = print invalid_request w' \<and> out w' = out w) \<and>
   ((args = [] \<or> py_int E (hd args) = Inl ValueError) \<and>
    c \<in> {lit ''create'', lit ''update'', lit ''delete''} \<longrightarrow>
      handle_user_command E c args w = print (lit ''Failed:  {}'') w \<and>
      handle_product_command E c args w = print (lit ''Failed:  {}'') w \<and>
      handle_order_command E (lit ''place'') args w = print invalid_request w) \<and>
   (\<not> blank_or_comment line \<and> line \<noteq> lit ''shutdown'' \<and> line \<noteq> lit ''restart'' \<longrightarrow>
      (tokenize E line = Some (lit ''USER'', cu, args) \<and>
       user_try E cu args (fold (handle_line E) before w) = Some (Raised e w') \<longrightarrow>
         fold (handle_line E) (before @ line # rest) w
           = fold (handle_line E) rest (print (lit ''Failed:  {}'') w')) \<and>
      (tokenize E line = Some (lit ''PRODUCT'', cp, args) \<and>
       product_try E cp args (fold (handle_line E) before w) = Some (Raised e w') \<longrightarrow>
         fold (handle_line E) (before @ line # rest) w
           = fold (handle_line E) rest (print (lit ''Failed:  {}'') w')) \<and>
      (tokenize E line = Some (lit ''ORDER'', co, args) \<and>
       order_try E co args (fold (handle_line E) before w) = Some (Raised e w') \<longrightarrow>
         fold (handle_line E) (before @ line # rest) w
           = fold (handle_line E) rest (print invalid_request w')))"
proof -
  have handlers:
    "user_try E cu args v = Some (Raised e w') \<longrightarrow>
       handle_user_command E cu args v = print (lit ''Failed:  {}'') w' \<and> out w' = out v"
    "product_try E cp args v = Some (Raised e w') \<longrightarrow>
       handle_product_command E cp args v = print (lit ''Failed:  {}'') w' \<and> out w' = out v"
    "order_try E co args v = Some (Raised e w') \<longrightarrow>
       handle_order_command E co args v = print invalid_request w' \<and> out w' = out v" for v
    by (simp_all add: handle_user_command_def handle_product_command_def
        handle_order_command_def failed_placeholder_def user_try_out product_try_out order_try_out)
  have ids: "handle_user_command E c args w = print (lit ''Failed:  {}'') w \<and>
      handle_product_command E c args w = print (lit ''Failed:  {}'') w \<and>
      handle_order_command E (lit ''place'') args w = print invalid_request w"
    if "(args = [] \<or> py_int E (hd args) = Inl ValueError) \<and>
      c \<in> {lit ''create'', lit ''update'', lit ''delete''}"
    using that id_failure_user [of args E c w] id_failure_product [of args E c w]
      id_failure_order [of args E w] by blast
  have loop: "fold (handle_line E) (before @ line # rest) w
      = fold (handle_line E) rest (process_command E line (fold (handle_line E) before w))"
    if "\<not> blank_or_comment line \<and> line \<noteq> lit ''shutdown'' \<and> line \<noteq> lit ''restart''"
    using that by (simp add: handle_line_command)
  show ?thesis
    using handlers [of w] handlers [of "fold (handle_line E) before w"] ids loop
    by (auto simp add: process_command_user process_command_product process_command_order)
qed


lemmas run_eval = handle_line_def skipped_def process_command_def tokenize_def
  handle_user_command_def handle_product_command_def handle_order_command_def
  user_try_def product_try_def order_try_def user_payload_def update_payload_def
  product_create_payload_def product_delete_payload_def order_place_payload_def
  post_request_def get_request_def subscript_def send_Inr report_def print_def
  sample_env_def sample_world_def failed_placeholder_def

theorem exceptions_caught_witness:
  "tokenize (sample_env (Response 200 (lit ''ok''))) (lit ''user create x alice a@x.com pw'')
     = Some (lit ''USER'', lit ''create'', [lit ''x'', lit ''alice'', lit ''a@x.com'', lit ''pw'']) \<and>
   py_int (sample_env (Response 200 (lit ''ok''))) (lit ''x'') = Inl ValueError \<and>
   out (fold (handle_line (sample_env (Response 200 (lit ''ok''))))
          ([lit ''user get 1''] @ lit ''user create x alice a@x.com pw'' # [lit ''product info 2''])
          (sample_world Map.empty))
     = [lit ''Successful:  ok'', lit ''Failed:  {}'', lit ''Successful:  ok''] \<and>
   reqs (fold (handle_line (sample_env (Response 200 (lit ''ok''))))
          ([lit ''user get 1''] @ lit ''user create x alice a@x.com pw'' # [lit ''product info 2''])
          (sample_world Map.empty))
     = [Get (lit ''http://127.0.0.1:8000/user/1''), Get (lit ''http://127.0.0.1:8000/product/2'')] \<and>
   out (fold (handle_line (sample_env (Response 200 (lit ''ok''))))
          ([] @ lit ''product delete'' # [lit ''product info 2'']) (sample_world Map.empty))
     = [lit ''Failed:  {}'', lit ''Successful:  ok''] \<and>
   out (fold (handle_line (sample_env Transport_Failure))
          ([] @ lit ''order place 1 2 3'' # [lit ''order place 1 2'']) (sample_world Map.empty))
     = [invalid_request, invalid_request]"
proof -
  let ?E = "sample_env (Response 200 (lit ''ok''))"
  let ?w = "sample_world Map.empty"
  let ?w1 = "?w\<lparr>out := [lit ''Successful:  ok''],
                 reqs := [Get (lit ''http://127.0.0.1:8000/user/1'')]\<rparr>"
  let ?args = "[lit ''x'', lit ''alice'', lit ''a@x.com'', lit ''pw'']"
  have t: "tokenize ?E (lit ''user create x alice a@x.com pw'')
      = Some (lit ''USER'', lit ''create'', ?args)"
    by (simp add: tokenize_def str_eval case_eval)
  have n: "\<not> blank_or_comment (lit ''user create x alice a@x.com pw'')"
    "lit ''user create x alice a@x.com pw'' \<noteq> lit ''shutdown''"
    "lit ''user create x alice a@x.com pw'' \<noteq> lit ''restart''"
    by (simp_all add: blank_or_comment_def lit_def)
  have i: "py_int ?E (lit ''x'') = Inl ValueError"
    by (simp add: int_eval lit_def sample_env_def)
  have b: "fold (handle_line ?E) [lit ''user get 1''] ?w = ?w1"
    by (simp add: run_eval str_eval case_eval)
  have u: "user_try ?E (lit ''create'') ?args (fold (handle_line ?E) [lit ''user get 1''] ?w)
      = Some (Raised ValueError ?w1)"
    using i by (simp only: b) (simp add: user_try_def user_payload_def post_request_def
        subscript_def)
  have r: "fold (handle_line ?E) [lit ''product info 2''] (print (lit ''Failed:  {}'') ?w1)
      = ?w\<lparr>out := [lit ''Successful:  ok'', lit ''Failed:  {}'', lit ''Successful:  ok''],
            reqs := [Get (lit ''http://127.0.0.1:8000/user/1''),
                     Get (lit ''http://127.0.0.1:8000/product/2'')]\<rparr>"
    by (simp add: run_eval str_eval case_eval)
  have 1: "fold (handle_line ?E)
      ([lit ''user get 1''] @ lit ''user create x alice a@x.com pw'' # [lit ''product info 2'']) ?w
      = ?w\<lparr>out := [lit ''Successful:  ok'', lit ''Failed:  {}'', lit ''Successful:  ok''],
            reqs := [Get (lit ''http://127.0.0.1:8000/user/1''),
                     Get (lit ''http://127.0.0.1:8000/product/2'')]\<rparr>"
    using exceptions_caught [of ?E "lit ''create''" ?args ?w ValueError ?w1 "lit ''create''"
        "lit ''place''" "lit ''create''" "lit ''user create x alice a@x.com pw''"
        "[lit ''user get 1'']" "[lit ''product info 2'']"] t n u r
    by simp
  have tp: "tokenize ?E (lit ''product delete'') = Some (lit ''PRODUCT'', lit ''delete'', [])"
    by (simp add: tokenize_def str_eval case_eval)
  have np: "\<not> blank_or_comment (lit ''product delete'')"
    "lit ''product delete'' \<noteq> lit ''shutdown''" "lit ''product delete'' \<noteq> lit ''restart''"
    by (simp_all add: blank_or_comment_def lit_def)
  have up: "product_try ?E (lit ''delete'') [] (fold (handle_line ?E) [] ?w)
      = Some (Raised IndexError ?w)"
    by (simp add: product_try_def product_delete_payload_def post_request_def subscript_def lit_def)
  have rp: "out (fold (handle_line ?E) [lit ''product info 2''] (print (lit ''Failed:  {}'') ?w))
      = [lit ''Failed:  {}'', lit ''Successful:  ok'']"
    by (simp add: run_eval str_eval case_eval)
  have 2: "out (fold (handle_line ?E) ([] @ lit ''product delete'' # [lit ''product info 2'']) ?w)
      = [lit ''Failed:  {}'', lit ''Successful:  ok'']"
    using exceptions_caught [of ?E "lit ''delete''" "[]" ?w IndexError ?w "lit ''delete''"
        "lit ''place''" "lit ''delete''" "lit ''product delete''" "[]" "[lit ''product info 2'']"]
      tp np up rp
    by simp
  let ?F = "sample_env Transport_Failure"
  let ?w2 = "?w\<lparr>reqs := [Post (lit ''http://127.0.0.1:8000/order'')
      [(lit ''command'', JStr (lit ''place order'')), (lit ''product_id'', JInt 1),
       (lit ''user_id'', JInt 2), (lit ''quantity'', JInt 3)] json_headers]\<rparr>"
  have to: "tokenize ?F (lit ''order place 1 2 3'')
      = Some (lit ''ORDER'', lit ''place'', [lit ''1'', lit ''2'', lit ''3''])"
    by (simp add: tokenize_def str_eval case_eval)
  have no: "\<not> blank_or_comment (lit ''order place 1 2 3'')"
    "lit ''order place 1 2 3'' \<noteq> lit ''shutdown''" "lit ''order place 1 2 3'' \<noteq> lit ''restart''"
    by (simp_all add: blank_or_comment_def lit_def)
  have uo: "order_try ?F (lit ''place'') [lit ''1'', lit ''2'', lit ''3'']
      (fold (handle_line ?F) [] ?w) = Some (Raised RequestException ?w2)"
    by (simp add: order_try_def order_place_payload_def post_request_def subscript_def send_Inr
        int_eval lit_def sample_env_def sample_world_def)
  have ro: "out (fold (handle_line ?F) [lit ''order place 1 2''] (print invalid_request ?w2))
      = [invalid_request, invalid_request]"
    by (simp add: run_eval str_eval case_eval int_eval)
  have 3: "out (fold (handle_line ?F) ([] @ lit ''order place 1 2 3'' # [lit ''order place 1 2'']) ?w)
      = [invalid_request, invalid_request]"
    using exceptions_caught [of ?F "lit ''create''" "[lit ''1'', lit ''2'', lit ''3'']" ?w
        RequestException ?w2 "lit ''create''" "lit ''place''" "lit ''create''"
        "lit ''order place 1 2 3''" "[]" "[lit ''order place 1 2'']"]
      to no uo ro
    by simp
  from t i 1 2 3 show ?thesis
    by simp
qed

subsection \<open>Unknown commands\<close>

lemma service_lits:
  "lit ''USER'' \<noteq> lit ''PRODUCT''" "lit ''USER'' \<noteq> lit ''ORDER''"
  "lit ''PRODUCT'' \<noteq> lit ''ORDER''"
  by (simp_all add: lit_def)

lemma user_try_None:
  "command \<notin> {lit ''create'', lit ''get'', lit ''update'', lit ''delete''} \<Longrightarrow>
   user_try E command args w = None"
  by (simp add: user_try_def Let_def)

lemma product_try_None:
  "command \<notin> {lit ''create'', lit ''info'', lit ''update'', lit ''delete''} \<Longrightarrow>
   product_try E command args w = None"
  by (simp add: product_try_def Let_def)

lemma order_try_None:
  "command \<noteq> lit ''place'' \<Longrightarrow> order_try E command args w = None"
  by (simp add: order_try_def Let_def)

lemma unknown_process_command:
  assumes "tokenize E line = Some (service, command, args)"
    and "service \<notin> {lit ''USER'', lit ''PRODUCT'', lit ''ORDER''} \<or>
      (service = lit ''USER'' \<and>
         command \<notin> {lit ''create'', lit ''get'', lit ''update'', lit ''delete''}) \<or>
      (service = lit ''PRODUCT'' \<and>
         command \<notin> {lit ''create'', lit ''info'', lit ''update'', lit ''delete''}) \<or>
      (service = lit ''ORDER'' \<and> command \<noteq> lit ''place'')"
  shows "process_command E line w = w"
  using assms(2)
proof (elim disjE conjE)
  assume "service \<notin> {lit ''USER'', lit ''PRODUCT'', lit ''ORDER''}"
  then show ?thesis
    by (simp add: process_command_def assms(1))
next
  assume "service = lit ''USER''"
    and "command \<notin> {lit ''create'', lit ''get'', lit ''update'', lit ''delete''}"
  then show ?thesis
    by (simp add: process_command_def assms(1) handle_user_command_def user_try_None)
next
  assume "service = lit ''PRODUCT''"
    and "command \<notin> {lit ''create'', lit ''info'', lit ''update'', lit ''delete''}"
  then show ?thesis
    by (simp add: process_command_def assms(1) handle_product_command_def product_try_None
        service_lits service_lits [symmetric])
next
  assume "service = lit ''ORDER''" and "command \<noteq> lit ''place''"
  then show ?thesis
    by (simp add: process_command_def assms(1) handle_order_command_def order_try_None
        service_lits service_lits [symmetric])
qed


text \<open>
  C7. A line whose service is none of USER, PRODUCT, ORDER, or whose action is not in the
  dispatch table of its service, is a no-op: the world is unchanged (no request, nothing
  printed), both in \<open>process_command\<close> and, unless the line is a control word, in the
  main loop.
\<close>

theorem unknown_command_noop:
  "tokenize E line = Some (service, command, args) \<Longrightarrow>
   service \<notin> {lit ''USER'', lit ''PRODUCT'', lit ''ORDER''} \<or>
   (service = lit ''USER'' \<and>
      command \<notin> {lit ''create'', lit ''get'', lit ''update'', lit ''delete''}) \<or>
   (service = lit ''PRODUCT'' \<and>
      command \<notin> {lit ''create'', lit ''info'', lit ''update'', lit ''delete''}) \<or>
   (service = lit ''ORDER'' \<and> command \<noteq> lit ''place'') \<Longrightarrow>
   process_command E line w = w \<and>
   (line \<noteq> lit ''shutdown'' \<and> line \<noteq> lit ''restart'' \<longrightarrow> handle_line E line w = w)"
proof -
  assume t: "tokenize E line = Some (service, command, args)"
    and u: "service \<notin> {lit ''USER'', lit ''PRODUCT'', lit ''ORDER''} \<or>
      (service = lit ''USER'' \<and>
         command \<notin> {lit ''create'', lit ''get'', lit ''update'', lit ''delete''}) \<or>
      (service = lit ''PRODUCT'' \<and>
         command \<notin> {lit ''create'', lit ''info'', lit ''update'', lit ''delete''}) \<or>
      (service = lit ''ORDER'' \<and> command \<noteq> lit ''place'')"
  have "process_command E line w = w"
    using t u by (rule unknown_process_command)
  then show ?thesis
    by (simp add: handle_line_def)
qed

theorem unknown_command_noop_witness:
  "tokenize (sample_env (Response 200 (lit ''ok''))) (lit ''FOO bar baz'')
     = Some (lit ''FOO'', lit ''bar'', [lit ''baz'']) \<and>
   tokenize (sample_env (Response 200 (lit ''ok''))) (lit ''user frobnicate 1'')
     = Some (lit ''USER'', lit ''frobnicate'', [lit ''1'']) \<and>
   handle_line (sample_env (Response 200 (lit ''ok''))) (lit ''FOO bar baz'') (sample_world Map.empty)
     = sample_world Map.empty \<and>
   handle_line (sample_env (Response 200 (lit ''ok''))) (lit ''user frobnicate 1'')
       (sample_world Map.empty)
     = sample_world Map.empty"
proof -
  let ?E = "sample_env (Response 200 (lit ''ok''))"
  have a: "tokenize ?E (lit ''FOO bar baz'') = Some (lit ''FOO'', lit ''bar'', [lit ''baz''])"
    by (simp add: tokenize_def str_eval case_eval)
  have b: "tokenize ?E (lit ''user frobnicate 1'')
      = Some (lit ''USER'', lit ''frobnicate'', [lit ''1''])"
    by (simp add: tokenize_def str_eval case_eval)
  have c: "lit ''FOO'' \<notin> {lit ''USER'', lit ''PRODUCT'', lit ''ORDER''}"
    by (simp add: lit_def)
  have d: "lit ''frobnicate'' \<notin> {lit ''create'', lit ''get'', lit ''update'', lit ''delete''}"
    by (simp add: lit_def)
  have e: "lit ''FOO bar baz'' \<noteq> lit ''shutdown''" "lit ''FOO bar baz'' \<noteq> lit ''restart''"
    "lit ''user frobnicate 1'' \<noteq> lit ''shutdown''" "lit ''user frobnicate 1'' \<noteq> lit ''restart''"
    by (simp_all add: lit_def)
  have 1: "handle_line ?E (lit ''FOO bar baz'') (sample_world Map.empty) = sample_world Map.empty"
    using unknown_command_noop [OF a, of "sample_world Map.empty"] c e by simp
  have 2: "handle_line ?E (lit ''user frobnicate 1'') (sample_world Map.empty)
      = sample_world Map.empty"
    using unknown_command_noop [OF b, of "sample_world Map.empty"] d e by simp
  from a b 1 2 show ?thesis
    by simp
qed

end
